theory Spec2Isabelle
  imports Main
begin

section \<open>cert-monitor: a shallow embedding of cmd/cert-monitor/main.go\<close>

text \<open>
  The program reads a configuration, dials every configured domain over TLS, reads the
  leaf certificate, decides whether it expires within the configured number of days,
  mails a warning per expiring domain and, when asked, a summary of all domains.

  The network, the clock, the file system and the mail transport are the environment:
  they are fields of the record \<open>Env\<close>. Every effect of the program is an \<open>event\<close>;
  a run is the list of its events in the order in which they happen.
\<close>

subsection \<open>Strings\<close>

definition nl :: string where
  "nl = [CHR 0x0A]"

text \<open>\<^verbatim>\<open>strings.Join(elems, sep)\<close>.\<close>

fun Join :: "string list \<Rightarrow> string \<Rightarrow> string" where
  "Join [] sep = []"
| "Join [x] sep = x"
| "Join (x # y # ys) sep = x @ sep @ Join (y # ys) sep"

text \<open>The verb \<^verbatim>\<open>%v\<close> of package fmt on a bool.\<close>

definition fmt_bool :: "bool \<Rightarrow> string" where
  "fmt_bool b = (if b then ''true'' else ''false'')"

definition isDigit :: "char \<Rightarrow> bool" where
  "isDigit c = (48 \<le> (of_char c :: nat) \<and> (of_char c :: nat) \<le> 57)"

definition digit_val :: "char \<Rightarrow> nat" where
  "digit_val c = of_char c - 48"

definition digit_char :: "nat \<Rightarrow> char" where
  "digit_char n = ''0123456789'' ! (n mod 10)"

text \<open>The decimal digits of a number, most significant first.\<close>

fun decimal :: "nat \<Rightarrow> string" where
  "decimal n = (if n < 10 then [digit_char n] else decimal (n div 10) @ [digit_char n])"

declare decimal.simps [simp del]

text \<open>
  \<^verbatim>\<open>appendInt(b, x, width)\<close> of package time for \<open>x \<ge> 0\<close>: the decimal digits,
  padded with zeros on the left to at least \<open>width\<close> characters.
\<close>

definition appendInt :: "nat \<Rightarrow> nat \<Rightarrow> string" where
  "appendInt x width = replicate (width - length (decimal x)) (CHR ''0'') @ decimal x"

subsection \<open>Package time\<close>

text \<open>
  A \<^verbatim>\<open>time.Time\<close> is an instant with a location. \<open>wall_sec\<close> counts the seconds
  since January 1 of year 1, 00:00:00 UTC, as the method \<^verbatim>\<open>sec()\<close> of the Go type does;
  \<open>wall_nsec\<close> is the nanosecond within the second. The location is a zone with a fixed
  offset, \<open>zone_offset\<close> seconds east of UTC (zones that change their offset are not
  modelled).
\<close>

record Time =
  wall_sec :: int
  wall_nsec :: nat
  zone_offset :: int

text \<open>The zero value \<^verbatim>\<open>time.Time{}\<close>: January 1, year 1, 00:00:00 UTC.\<close>

definition zeroTime :: Time where
  "zeroTime = \<lparr>wall_sec = 0, wall_nsec = 0, zone_offset = 0\<rparr>"

text \<open>Seconds are an \<^verbatim>\<open>int64\<close>: arithmetic on them wraps around.\<close>

definition wrap64 :: "int \<Rightarrow> int" where
  "wrap64 x = (x + 2 ^ 63) mod 2 ^ 64 - 2 ^ 63"

definition secondsPerDay :: int where
  "secondsPerDay = 86400"

text \<open>
  \<^verbatim>\<open>t.AddDate(0, 0, days)\<close>. Go splits the time, read in its location, into the date
  and the clock, adds \<open>days\<close> to the day of the month and builds the time again with
  \<^verbatim>\<open>Date(year, month, day+days, hour, min, sec, nsec, loc)\<close>, which normalises a day
  outside the month by counting days. With years and months both 0, as in the only call
  of the program, that is: the day number moves by \<open>days\<close>, the clock stays.
\<close>

definition AddDate_days :: "Time \<Rightarrow> int \<Rightarrow> Time" where
  "AddDate_days t days =
     (let abs = wall_sec t + zone_offset t;
          d = abs div secondsPerDay;
          clock = abs mod secondsPerDay
      in t\<lparr>wall_sec := wrap64 ((d + days) * secondsPerDay + clock - zone_offset t)\<rparr>)"

text \<open>\<^verbatim>\<open>t.After(u)\<close>: the instant \<open>t\<close> is strictly later than \<open>u\<close>.\<close>

definition After :: "Time \<Rightarrow> Time \<Rightarrow> bool" where
  "After t u = (wall_sec t > wall_sec u \<or> (wall_sec t = wall_sec u \<and> wall_nsec t > wall_nsec u))"

text \<open>
  A calendar date, as the layout \<^verbatim>\<open>2006-01-02\<close> reads it off a time. The \<^verbatim>\<open>NotAfter\<close>
  of a certificate is decoded from the calendar fields of its ASN.1 time, whose year has
  at most four digits.
\<close>

record civil =
  year :: nat
  month :: nat
  day :: nat

definition isLeap :: "nat \<Rightarrow> bool" where
  "isLeap y = (y mod 4 = 0 \<and> (y mod 100 \<noteq> 0 \<or> y mod 400 = 0))"

definition daysBefore :: "nat list" where
  "daysBefore = [0, 31, 59, 90, 120, 151, 181, 212, 243, 273, 304, 334, 365]"

text \<open>\<^verbatim>\<open>daysIn(m, year)\<close>, for a month between 1 and 12.\<close>

definition daysIn :: "nat \<Rightarrow> nat \<Rightarrow> nat" where
  "daysIn m y =
     (if m = 2 \<and> isLeap y then 29 else daysBefore ! m - daysBefore ! (m - 1))"

text \<open>
  The number of the day \<open>y-m-d\<close>, counted from January 1 of year 1 (day 0), in the
  proleptic Gregorian calendar of package time.
\<close>

definition dayNumber :: "nat \<Rightarrow> nat \<Rightarrow> nat \<Rightarrow> int" where
  "dayNumber y m d =
     (let y1 = int y - 1
      in 365 * y1 + y1 div 4 - y1 div 100 + y1 div 400
         + int (daysBefore ! (m - 1))
         + (if isLeap y \<and> 3 \<le> m then 1 else 0)
         + (int d - 1))"

text \<open>\<^verbatim>\<open>time.Date(y, m, d, 0, 0, 0, 0, time.UTC)\<close>.\<close>

definition Date_UTC :: "nat \<Rightarrow> nat \<Rightarrow> nat \<Rightarrow> Time" where
  "Date_UTC y m d =
     \<lparr>wall_sec = wrap64 (dayNumber y m d * secondsPerDay), wall_nsec = 0, zone_offset = 0\<rparr>"

text \<open>\<^verbatim>\<open>t.Format("2006-01-02")\<close>, on the calendar date of \<open>t\<close>.\<close>

definition Format_date :: "civil \<Rightarrow> string" where
  "Format_date c = appendInt (year c) 4 @ ''-'' @ appendInt (month c) 2 @ ''-'' @ appendInt (day c) 2"

text \<open>
  \<^verbatim>\<open>time.Parse("2006-01-02", value)\<close>. The layout is the chunk \<^verbatim>\<open>2006\<close> (exactly four
  digits), the text \<^verbatim>\<open>-\<close>, the chunk \<^verbatim>\<open>01\<close> (exactly two digits, a month between 1 and
  12), the text \<^verbatim>\<open>-\<close>, the chunk \<^verbatim>\<open>02\<close> (exactly two digits), and nothing after it; the
  day is checked against the length of the month at the end. The result is in UTC.
\<close>

datatype ParseError = ErrBad | ErrMonthRange | ErrExtraText | ErrDayRange

definition stdLongYear :: "string \<Rightarrow> ParseError + nat \<times> string" where
  "stdLongYear v =
     (case v of
        a # b # c # d # rest \<Rightarrow>
          if isDigit a \<and> isDigit b \<and> isDigit c \<and> isDigit d
          then Inr (digit_val a * 1000 + digit_val b * 100 + digit_val c * 10 + digit_val d, rest)
          else Inl ErrBad
      | _ \<Rightarrow> Inl ErrBad)"

text \<open>\<^verbatim>\<open>getnum(s, true)\<close>: exactly two digits.\<close>

definition getnum :: "string \<Rightarrow> ParseError + nat \<times> string" where
  "getnum s =
     (case s of
        a # b # rest \<Rightarrow>
          if isDigit a \<and> isDigit b then Inr (digit_val a * 10 + digit_val b, rest)
          else Inl ErrBad
      | _ \<Rightarrow> Inl ErrBad)"

text \<open>\<^verbatim>\<open>skip(value, "-")\<close>.\<close>

definition skip :: "string \<Rightarrow> ParseError + string" where
  "skip v = (case v of c # rest \<Rightarrow> if c = CHR ''-'' then Inr rest else Inl ErrBad | [] \<Rightarrow> Inl ErrBad)"

definition Parse_date :: "string \<Rightarrow> ParseError + Time" where
  "Parse_date v =
     (case stdLongYear v of Inl e \<Rightarrow> Inl e | Inr (y, v1) \<Rightarrow>
      case skip v1 of Inl e \<Rightarrow> Inl e | Inr v2 \<Rightarrow>
      case getnum v2 of Inl e \<Rightarrow> Inl e | Inr (m, v3) \<Rightarrow>
      if m = 0 \<or> 12 < m then Inl ErrMonthRange else
      case skip v3 of Inl e \<Rightarrow> Inl e | Inr v4 \<Rightarrow>
      case getnum v4 of Inl e \<Rightarrow> Inl e | Inr (d, v5) \<Rightarrow>
      if v5 \<noteq> [] then Inl ErrExtraText else
      if d < 1 \<or> daysIn m y < d then Inl ErrDayRange else
      Inr (Date_UTC y m d))"

subsection \<open>Data of the program\<close>

record SMTPConfig =
  Server :: string
  Port :: int
  To :: "string list"
  From :: string

record Config =
  SMTP :: SMTPConfig
  Domains :: "string list"
  Threshold :: int

record Domain =
  CommonName :: string
  DNSNames :: "string list"
  Expires :: string
  IsExpiringSoon :: bool
  Summary :: string

text \<open>The command line flags of \<^verbatim>\<open>main\<close>.\<close>

record Flags =
  configFlag :: string
  summaryFlag :: bool
  debugFlag :: bool
  jsonFlag :: bool
  printFlag :: bool

text \<open>The fields of an \<^verbatim>\<open>x509.Certificate\<close> that the program reads.\<close>

record Certificate =
  Subject_CommonName :: string
  Cert_DNSNames :: "string list"
  NotAfter :: civil

text \<open>
  The state of a TLS connection after the handshake. On the client side the list of peer
  certificates of package crypto/tls is never empty, so it is a first certificate and
  the rest of the chain.
\<close>

record ConnectionState =
  PeerCertificates_0 :: Certificate
  PeerCertificates_rest :: "Certificate list"

text \<open>The message that \<^verbatim>\<open>sendEmail\<close> builds with gomail.\<close>

record Message =
  msg_From :: string
  msg_To :: "string list"
  msg_Subject :: string
  msg_Body :: string

subsection \<open>Errors, log records and events\<close>

text \<open>
  An error of the network, the file system, the YAML decoder or the mail transport is the
  text the environment gives; an error of \<^verbatim>\<open>time.Parse\<close> is computed by the model.
\<close>

datatype error = EnvError string | TimeParseError ParseError

datatype Level = LevelDebug | LevelError

text \<open>The arguments of a log record: those of \<^verbatim>\<open>fmt.Sprintf\<close> and the attributes of slog.\<close>

datatype arg = AStr string | AErr error | ADomain Domain

text \<open>
  \<open>Log\<close> is a record that the slog handler writes to standard error, with its message
  (or format) and arguments; \<open>Dial\<close> and \<open>Close\<close> open and close the connection to an
  address; \<open>Send\<close> is one call of \<^verbatim>\<open>DialAndSend\<close> with the server, the port and the
  message; \<open>Stdout\<close> is text written to standard output.
\<close>

datatype event =
    Log Level string "arg list"
  | Dial string
  | Close string
  | Send string int Message
  | Stdout string

text \<open>
  The environment. \<open>tlsDial i addr\<close> is the outcome of the \<^verbatim>\<open>tls.Dial\<close> of the \<open>i\<close>-th
  round of the loop over the domains, \<open>timeNow i\<close> what \<^verbatim>\<open>time.Now()\<close> returns in that
  round, and \<open>DialAndSend k server port m\<close> the outcome of the call of \<^verbatim>\<open>DialAndSend\<close>
  that \<open>k\<close> other calls precede (\<open>None\<close>: delivered).
\<close>

record Env =
  LookupEnv :: "string \<Rightarrow> string option"
  ReadFile :: "string \<Rightarrow> error + string"
  yaml_Unmarshal :: "string \<Rightarrow> error + Config"
  tlsDial :: "nat \<Rightarrow> string \<Rightarrow> error + ConnectionState"
  timeNow :: "nat \<Rightarrow> Time"
  DialAndSend :: "nat \<Rightarrow> string \<Rightarrow> int \<Rightarrow> Message \<Rightarrow> error option"

text \<open>
  The level of the logger is Warn, or Debug with \<^verbatim>\<open>--debug\<close>: a record of level Error is
  always written, one of level Debug only with the flag.
\<close>

definition slog_Debug :: "Flags \<Rightarrow> string \<Rightarrow> arg list \<Rightarrow> event list" where
  "slog_Debug flags msg args = (if debugFlag flags then [Log LevelDebug msg args] else [])"

definition slog_Error :: "string \<Rightarrow> arg list \<Rightarrow> event list" where
  "slog_Error msg args = [Log LevelError msg args]"

subsection \<open>The functions of main.go\<close>

text \<open>
  \<^verbatim>\<open>isDateWithinDays(ctx, targetDate, days)\<close>, with the value of \<^verbatim>\<open>time.Now()\<close> as the
  argument \<open>today\<close>. When the date does not parse, \<^verbatim>\<open>expires\<close> is the zero time that
  \<^verbatim>\<open>time.Parse\<close> returns with its error; the function logs and goes on.
\<close>

definition isDateWithinDays :: "Time \<Rightarrow> string \<Rightarrow> int \<Rightarrow> event list \<times> bool" where
  "isDateWithinDays today targetDate days =
     (let (expires, lg) =
            (case Parse_date targetDate of
               Inl err \<Rightarrow>
                 (zeroTime,
                  slog_Error (''failed to parse expiration date: %s'' @ nl) [AErr (TimeParseError err)])
             | Inr t \<Rightarrow> (t, []))
      in (lg, After (AddDate_days today days) expires))"

text \<open>Lines 145 to 153 of \<^verbatim>\<open>getDomain\<close>: the summary of a domain, from its other fields.\<close>

definition build_summary :: "Domain \<Rightarrow> string" where
  "build_summary d =
     Join ([CommonName d,
            ''  Expiring Soon: '' @ fmt_bool (IsExpiringSoon d),
            ''  Expires:       '' @ Expires d,
            ''  DNS Alt Names:'']
           @ map (\<lambda>dnsName. ''    '' @ dnsName) (DNSNames d)) nl"

text \<open>
  \<^verbatim>\<open>getDomain(ctx, domain)\<close> in round \<open>i\<close> of the loop: the events and the error or
  the domain.
\<close>

definition getDomain :: "Env \<Rightarrow> Config \<Rightarrow> nat \<Rightarrow> string \<Rightarrow> event list \<times> (error + Domain)" where
  "getDomain env config i domain =
     (let addr = domain @ '':443''
      in case tlsDial env i addr of
           Inl err \<Rightarrow> ([Dial addr], Inl err)
         | Inr conn \<Rightarrow>
             (let cert = PeerCertificates_0 conn;
                  d0 = \<lparr>CommonName = Subject_CommonName cert,
                        DNSNames = Cert_DNSNames cert,
                        Expires = Format_date (NotAfter cert),
                        IsExpiringSoon = False,
                        Summary = []\<rparr>;
                  (lg, soon) = isDateWithinDays (timeNow env i) (Expires d0) (Threshold config);
                  d1 = (if soon then d0\<lparr>IsExpiringSoon := True\<rparr> else d0);
                  d2 = d1\<lparr>Summary := build_summary d1\<rparr>
              in ([Dial addr] @ lg @ [Close addr], Inr d2)))"

text \<open>The number of calls of \<^verbatim>\<open>DialAndSend\<close> in a run so far.\<close>

fun is_Send :: "event \<Rightarrow> bool" where
  "is_Send (Send s p m) = True"
| "is_Send e = False"

definition count_sends :: "event list \<Rightarrow> nat" where
  "count_sends tr = length (filter is_Send tr)"

text \<open>\<^verbatim>\<open>sendEmail(ctx, subject, contents)\<close> as the call of \<^verbatim>\<open>DialAndSend\<close> number \<open>k\<close>.\<close>

definition sendEmail :: "Env \<Rightarrow> Config \<Rightarrow> Flags \<Rightarrow> nat \<Rightarrow> string \<Rightarrow> string \<Rightarrow> event list" where
  "sendEmail env config flags k subject contents =
     (let m = \<lparr>msg_From = From (SMTP config), msg_To = To (SMTP config),
                msg_Subject = subject, msg_Body = contents\<rparr>
      in slog_Debug flags ''sending email'' [AStr subject, AStr contents]
         @ [Send (Server (SMTP config)) (Port (SMTP config)) m]
         @ (case DialAndSend env k (Server (SMTP config)) (Port (SMTP config)) m of
              Some err \<Rightarrow> slog_Error ''failed to send email'' [AErr err]
            | None \<Rightarrow> []))"

definition getConfigPath :: "Env \<Rightarrow> string \<Rightarrow> string" where
  "getConfigPath env cfgFlag =
     (if cfgFlag \<noteq> [] then cfgFlag
      else case LookupEnv env ''CERT_MONITOR_CONFIG_PATH'' of
             Some configFilePath \<Rightarrow> configFilePath
           | None \<Rightarrow> ''/etc/cert-monitor/config.yml'')"

text \<open>
  One round of the loop of \<^verbatim>\<open>main\<close> over \<^verbatim>\<open>config.Domains\<close> (lines 86 to 102), on the
  events so far and the slice \<^verbatim>\<open>domains\<close>.
\<close>

definition main_round ::
  "Env \<Rightarrow> Config \<Rightarrow> Flags \<Rightarrow> nat \<Rightarrow> string \<Rightarrow> event list \<times> Domain list \<Rightarrow> event list \<times> Domain list"
where
  "main_round env config flags i cfgDomain st =
     (let (tr, domains) = st;
          tr1 = tr @ slog_Debug flags ''checking domain: %s'' [AStr cfgDomain];
          (ev, r) = getDomain env config i cfgDomain;
          tr2 = tr1 @ ev
      in case r of
           Inl err \<Rightarrow> (tr2 @ slog_Error ''failed to dial domain'' [AErr err], domains)
         | Inr domain \<Rightarrow>
             (let tr3 = tr2 @ slog_Debug flags ''domain'' [ADomain domain];
                  domains' = domains @ [domain]
              in if IsExpiringSoon domain \<and> \<not> printFlag flags
                 then (tr3 @ sendEmail env config flags (count_sends tr3)
                               (''certificate expiration warning: '' @ cfgDomain) (Summary domain),
                       domains')
                 else (tr3, domains')))"

fun main_loop ::
  "Env \<Rightarrow> Config \<Rightarrow> Flags \<Rightarrow> nat \<Rightarrow> string list \<Rightarrow> event list \<times> Domain list \<Rightarrow> event list \<times> Domain list"
where
  "main_loop env config flags i [] st = st"
| "main_loop env config flags i (cfgDomain # rest) st =
     main_loop env config flags (Suc i) rest (main_round env config flags i cfgDomain st)"

text \<open>Lines 107 to 110: two lines of the summary for every domain of the slice.\<close>

fun summaryLines :: "Domain list \<Rightarrow> string list" where
  "summaryLines [] = []"
| "summaryLines (domain # rest) = [Summary domain, []] @ summaryLines rest"

text \<open>Lines 105 to 118 of \<^verbatim>\<open>main\<close>: the summary, printed or mailed.\<close>

definition main_summary :: "Env \<Rightarrow> Config \<Rightarrow> Flags \<Rightarrow> event list \<times> Domain list \<Rightarrow> event list" where
  "main_summary env config flags st =
     (let (tr, domains) = st
      in if summaryFlag flags
         then (let summary = Join (summaryLines domains) nl
               in if printFlag flags
                  then tr @ [Stdout (summary @ nl)]
                  else tr @ sendEmail env config flags (count_sends tr) ''certificate summary'' summary)
         else tr)"

text \<open>\<^verbatim>\<open>main\<close> once the configuration is loaded (lines 84 to 118).\<close>

definition main_body :: "Env \<Rightarrow> Config \<Rightarrow> Flags \<Rightarrow> event list" where
  "main_body env config flags =
     main_summary env config flags (main_loop env config flags 0 (Domains config) ([], []))"

text \<open>\<^verbatim>\<open>main\<close>: the events of the run and the exit status of the process.\<close>

definition main :: "Env \<Rightarrow> Flags \<Rightarrow> event list \<times> nat" where
  "main env flags =
     (let configFilePath = getConfigPath env (configFlag flags)
      in case ReadFile env configFilePath of
           Inl err \<Rightarrow> (slog_Error (''failed to read config file: %s'' @ nl) [AStr configFilePath], 1)
         | Inr d \<Rightarrow>
             (case yaml_Unmarshal env d of
                Inl err \<Rightarrow> (slog_Error (''failed to parse config file: %s'' @ nl) [AErr err], 1)
              | Inr config \<Rightarrow> (main_body env config flags, 0)))"

subsection \<open>Reading a run\<close>

text \<open>The addresses dialled, the messages handed to the mail transport and the texts
  written to standard output, each in the order of the run.\<close>

fun dial_of :: "event \<Rightarrow> string list" where
  "dial_of (Dial a) = [a]"
| "dial_of e = []"

definition dials :: "event list \<Rightarrow> string list" where
  "dials tr = concat (map dial_of tr)"

fun send_of :: "event \<Rightarrow> Message list" where
  "send_of (Send s p m) = [m]"
| "send_of e = []"

definition sent :: "event list \<Rightarrow> Message list" where
  "sent tr = concat (map send_of tr)"

fun stdout_of :: "event \<Rightarrow> string list" where
  "stdout_of (Stdout s) = [s]"
| "stdout_of e = []"

definition printed :: "event list \<Rightarrow> string list" where
  "printed tr = concat (map stdout_of tr)"

text \<open>The arguments of the records of level Error with a given message.\<close>

fun error_of :: "string \<Rightarrow> event \<Rightarrow> arg list list" where
  "error_of msg (Log LevelError msg' args) = (if msg' = msg then [args] else [])"
| "error_of msg e = []"

definition errors_logged :: "string \<Rightarrow> event list \<Rightarrow> arg list list" where
  "errors_logged msg tr = concat (map (error_of msg) tr)"

definition is_send_failure :: "event \<Rightarrow> bool" where
  "is_send_failure e = (error_of ''failed to send email'' e \<noteq> [])"

text \<open>
  Round \<open>i\<close> of the loop, on the domain \<open>d\<close>: whether the dial gives a connection, and
  the summary and the flag of the domain that \<^verbatim>\<open>getDomain\<close> returns then.
\<close>

definition dial_ok :: "Env \<Rightarrow> nat \<Rightarrow> string \<Rightarrow> bool" where
  "dial_ok env i d = (case tlsDial env i (d @ '':443'') of Inr conn \<Rightarrow> True | Inl err \<Rightarrow> False)"

definition rendered :: "Env \<Rightarrow> Config \<Rightarrow> nat \<Rightarrow> string \<Rightarrow> string" where
  "rendered env config i d =
     (case snd (getDomain env config i d) of Inr domain \<Rightarrow> Summary domain | Inl err \<Rightarrow> [])"

definition expiring :: "Env \<Rightarrow> Config \<Rightarrow> nat \<Rightarrow> string \<Rightarrow> bool" where
  "expiring env config i d =
     (case snd (getDomain env config i d) of Inr domain \<Rightarrow> IsExpiringSoon domain | Inl err \<Rightarrow> False)"

text \<open>The rounds of the loop, from round \<open>i\<close> on, whose dial gives a connection.\<close>

definition ok_rounds :: "Env \<Rightarrow> nat \<Rightarrow> string list \<Rightarrow> (nat \<times> string) list" where
  "ok_rounds env i ds = filter (\<lambda>(j, d). dial_ok env j d) (enumerate i ds)"

text \<open>The message that \<^verbatim>\<open>sendEmail\<close> hands to the mail transport.\<close>

definition mail :: "Config \<Rightarrow> string \<Rightarrow> string \<Rightarrow> Message" where
  "mail config subject contents =
     \<lparr>msg_From = From (SMTP config), msg_To = To (SMTP config),
      msg_Subject = subject, msg_Body = contents\<rparr>"

text \<open>
  The lines of the summary and the warnings of a run, from the rounds of the loop: two
  lines for every round whose dial gives a connection, the summary of the domain and an
  empty line; one warning for every such round whose domain is expiring soon.
\<close>

definition summary_entries :: "Env \<Rightarrow> Config \<Rightarrow> nat \<Rightarrow> string list \<Rightarrow> string list" where
  "summary_entries env config i ds =
     concat (map (\<lambda>(j, d). [rendered env config j d, []]) (ok_rounds env i ds))"

definition alert_messages :: "Env \<Rightarrow> Config \<Rightarrow> nat \<Rightarrow> string list \<Rightarrow> Message list" where
  "alert_messages env config i ds =
     map (\<lambda>(j, d). mail config (''certificate expiration warning: '' @ d) (rendered env config j d))
       (filter (\<lambda>(j, d). expiring env config j d) (ok_rounds env i ds))"

text \<open>The errors of the dials that fail, as the arguments of their log records.\<close>

definition dial_errors :: "Env \<Rightarrow> nat \<Rightarrow> string list \<Rightarrow> arg list list" where
  "dial_errors env i ds =
     concat (map (\<lambda>(j, d). case tlsDial env j (d @ '':443'') of
                              Inl err \<Rightarrow> [[AErr err]] | Inr conn \<Rightarrow> [])
               (enumerate i ds))"

text \<open>
  The errors of the deliveries that fail, for the messages \<open>ms\<close> of a run in their order:
  message number \<open>k\<close> is the call of \<^verbatim>\<open>DialAndSend\<close> that \<open>k\<close> calls precede.
\<close>

definition delivery_errors :: "Env \<Rightarrow> Config \<Rightarrow> Message list \<Rightarrow> arg list list" where
  "delivery_errors env config ms =
     concat (map (\<lambda>k. case DialAndSend env k (Server (SMTP config)) (Port (SMTP config)) (ms ! k) of
                         Some err \<Rightarrow> [[AErr err]] | None \<Rightarrow> [])
               [0..<length ms])"

text \<open>A run without the log records of the deliveries that fail.\<close>

definition quiet :: "event list \<Rightarrow> event list" where
  "quiet tr = filter (\<lambda>e. \<not> is_send_failure e) tr"

subsection \<open>Dates and days\<close>






text \<open>
  The address in the words of the specification: the endpoint itself when it names a
  port, port 443 otherwise.
\<close>

definition spec_address :: "string \<Rightarrow> string" where
  "spec_address endpoint = (if CHR '':'' \<in> set endpoint then endpoint else endpoint @ '':443'')"

subsection \<open>A sample environment\<close>

definition sample_cert :: Certificate where
  "sample_cert =
     \<lparr>Subject_CommonName = ''example.com'',
      Cert_DNSNames = [''example.com'', ''www.example.com'', ''alt.example.com''],
      NotAfter = \<lparr>year = 2024, month = 1, day = 10\<rparr>\<rparr>"

text \<open>December 15, 2023, 10:00:00 UTC.\<close>

definition sample_now :: Time where
  "sample_now = \<lparr>wall_sec = dayNumber 2023 12 15 * secondsPerDay + 36000, wall_nsec = 0, zone_offset = 0\<rparr>"

definition sample_config :: Config where
  "sample_config =
     \<lparr>SMTP = \<lparr>Server = ''mail.example.com'', Port = 25, To = [''ops@example.com''], From = ''monitor@example.com''\<rparr>,
      Domains = [''bad.example.com'', ''example.com''],
      Threshold = 30\<rparr>"

text \<open>
  Only \<^verbatim>\<open>example.com:443\<close> answers; the first delivery of mail fails, the later ones
  succeed.
\<close>

definition sample_env :: Env where
  "sample_env =
     \<lparr>LookupEnv = (\<lambda>name. None),
      ReadFile = (\<lambda>path. if path = ''/etc/cert-monitor/config.yml'' then Inr ''domains'' else Inl (EnvError ''no such file'')),
      yaml_Unmarshal = (\<lambda>text. if text = ''domains'' then Inr sample_config else Inl (EnvError ''yaml'')),
      tlsDial = (\<lambda>i addr. if addr = ''example.com:443''
                           then Inr \<lparr>PeerCertificates_0 = sample_cert, PeerCertificates_rest = []\<rparr>
                           else Inl (EnvError ''dial failed'')),
      timeNow = (\<lambda>i. sample_now),
      DialAndSend = (\<lambda>k server port m. if k = 0 then Some (EnvError ''smtp down'') else None)\<rparr>"

definition sample_flags :: "bool \<Rightarrow> bool \<Rightarrow> Flags" where
  "sample_flags summary print =
     \<lparr>configFlag = [], summaryFlag = summary, debugFlag = False, jsonFlag = False, printFlag = print\<rparr>"

section \<open>Properties\<close>

subsection \<open>Time arithmetic\<close>










subsection \<open>Formatting a date and parsing it back\<close>


















subsection \<open>The expiry decision\<close>





text \<open>
  A date that does not parse: the function writes one record of level Error and decides
  against the zero time, January 1 of year 1.
\<close>

lemma isDateWithinDays_parse_error:
  "Parse_date targetDate = Inl err \<Longrightarrow>
   isDateWithinDays today targetDate days =
     (slog_Error (''failed to parse expiration date: %s'' @ nl) [AErr (TimeParseError err)],
      After (AddDate_days today days) zeroTime)"
  by (simp add: isDateWithinDays_def)

text \<open>
  Claim C2 asks that a malformed date is an error that reaches the caller, never a
  decision. The code at the date \<^verbatim>\<open>not-a-date\<close>, on December 15, 2023 with a threshold
  of 30 days: the result is the decision true, and the error is only in the log.
\<close>

theorem isDateWithinDays_malformed:
  "isDateWithinDays sample_now ''not-a-date'' 30
     = ([Log LevelError (''failed to parse expiration date: %s'' @ nl) [AErr (TimeParseError ErrBad)]], True)"
  by (simp add: isDateWithinDays_def Parse_date_def stdLongYear_def isDigit_def slog_Error_def
      zeroTime_def sample_now_def dayNumber_def daysBefore_def isLeap_def
      secondsPerDay_def wrap64_def AddDate_days_def After_def)

subsection \<open>The events of one round of the loop\<close>

lemma dials_append: "dials (a @ b) = dials a @ dials b"
  by (simp add: dials_def)

lemma sent_append: "sent (a @ b) = sent a @ sent b"
  by (simp add: sent_def)

lemma printed_append: "printed (a @ b) = printed a @ printed b"
  by (simp add: printed_def)

lemma errors_logged_append: "errors_logged msg (a @ b) = errors_logged msg a @ errors_logged msg b"
  by (simp add: errors_logged_def)

lemma Nil_quiet:
  "dials [] = []" "sent [] = []" "printed [] = []" "errors_logged m [] = []"
  by (simp_all add: dials_def sent_def printed_def errors_logged_def)

lemma count_sends_sent: "count_sends tr = length (sent tr)"
proof (induction tr)
  case Nil
  show ?case by (simp add: count_sends_def sent_def)
next
  case (Cons e tr)
  then show ?case by (cases e) (simp_all add: count_sends_def sent_def)
qed

lemma slog_Debug_quiet:
  "dials (slog_Debug flags msg args) = []"
  "sent (slog_Debug flags msg args) = []"
  "printed (slog_Debug flags msg args) = []"
  "errors_logged m (slog_Debug flags msg args) = []"
  by (simp_all add: slog_Debug_def dials_def sent_def printed_def errors_logged_def)

lemma slog_Error_quiet:
  "dials (slog_Error msg args) = []"
  "sent (slog_Error msg args) = []"
  "printed (slog_Error msg args) = []"
  "errors_logged m (slog_Error msg args) = (if msg = m then [args] else [])"
  by (simp_all add: slog_Error_def dials_def sent_def printed_def errors_logged_def)

lemma isDateWithinDays_quiet:
  "dials (fst (isDateWithinDays t s n)) = []"
  "sent (fst (isDateWithinDays t s n)) = []"
  "printed (fst (isDateWithinDays t s n)) = []"
  "errors_logged ''failed to dial domain'' (fst (isDateWithinDays t s n)) = []"
  "errors_logged ''failed to send email'' (fst (isDateWithinDays t s n)) = []"
  by (simp_all add: isDateWithinDays_def slog_Error_def nl_def dials_def sent_def printed_def
      errors_logged_def split: sum.splits)

lemma getDomain_events:
  "fst (getDomain env config i d) =
     Dial (d @ '':443'') #
     (case tlsDial env i (d @ '':443'') of
        Inl err \<Rightarrow> []
      | Inr conn \<Rightarrow>
          fst (isDateWithinDays (timeNow env i) (Format_date (NotAfter (PeerCertificates_0 conn)))
                 (Threshold config)) @ [Close (d @ '':443'')])"
  by (simp add: getDomain_def Let_def split: sum.splits prod.splits)

lemma getDomain_result:
  "snd (getDomain env config i d) =
     (case tlsDial env i (d @ '':443'') of
        Inl err \<Rightarrow> Inl err
      | Inr conn \<Rightarrow> snd (getDomain env config i d))"
  by (simp add: getDomain_def Let_def split: sum.splits prod.splits)

lemma getDomain_Inl_iff:
  "(snd (getDomain env config i d) = Inl err) = (tlsDial env i (d @ '':443'') = Inl err)"
  by (auto simp: getDomain_def Let_def split: sum.splits prod.splits)

lemma getDomain_quiet:
  "dials (fst (getDomain env config i d)) = [d @ '':443'']"
  "sent (fst (getDomain env config i d)) = []"
  "printed (fst (getDomain env config i d)) = []"
  "errors_logged ''failed to dial domain'' (fst (getDomain env config i d)) = []"
  "errors_logged ''failed to send email'' (fst (getDomain env config i d)) = []"
proof -
  have c: "dials [Close a] = []" "sent [Close a] = []" "printed [Close a] = []"
    "errors_logged m [Close a] = []" for a m
    by (simp_all add: dials_def sent_def printed_def errors_logged_def)
  have d: "dials (Dial a # tr) = a # dials tr" "sent (Dial a # tr) = sent tr"
    "printed (Dial a # tr) = printed tr" "errors_logged m (Dial a # tr) = errors_logged m tr" for a m tr
    by (simp_all add: dials_def sent_def printed_def errors_logged_def)
  have n: "dials [] = []" "sent [] = []" "printed [] = []" "errors_logged m [] = []" for m
    by (simp_all add: dials_def sent_def printed_def errors_logged_def)
  show "dials (fst (getDomain env config i d)) = [d @ '':443'']"
    by (simp add: getDomain_events d dials_append c n isDateWithinDays_quiet split: sum.splits)
  show "sent (fst (getDomain env config i d)) = []"
    by (simp add: getDomain_events d sent_append c n isDateWithinDays_quiet split: sum.splits)
  show "printed (fst (getDomain env config i d)) = []"
    by (simp add: getDomain_events d printed_append c n isDateWithinDays_quiet split: sum.splits)
  show "errors_logged ''failed to dial domain'' (fst (getDomain env config i d)) = []"
    by (simp add: getDomain_events d errors_logged_append c n isDateWithinDays_quiet split: sum.splits)
  show "errors_logged ''failed to send email'' (fst (getDomain env config i d)) = []"
    by (simp add: getDomain_events d errors_logged_append c n isDateWithinDays_quiet split: sum.splits)
qed

lemma sendEmail_events:
  "dials (sendEmail env config flags k subject contents) = []"
  "sent (sendEmail env config flags k subject contents) = [mail config subject contents]"
  "printed (sendEmail env config flags k subject contents) = []"
  "errors_logged ''failed to dial domain'' (sendEmail env config flags k subject contents) = []"
  "errors_logged ''failed to send email'' (sendEmail env config flags k subject contents) =
     (case DialAndSend env k (Server (SMTP config)) (Port (SMTP config)) (mail config subject contents) of
        Some err \<Rightarrow> [[AErr err]] | None \<Rightarrow> [])"
  by (auto simp: sendEmail_def Let_def mail_def slog_Debug_def slog_Error_def
      dials_def sent_def printed_def errors_logged_def split: option.splits)

lemma main_round_unfold:
  "main_round env config flags i d st =
     (let tr3 = fst st @ slog_Debug flags ''checking domain: %s'' [AStr d] @ fst (getDomain env config i d)
      in case snd (getDomain env config i d) of
           Inl err \<Rightarrow> (tr3 @ slog_Error ''failed to dial domain'' [AErr err], snd st)
         | Inr domain \<Rightarrow>
             (tr3 @ slog_Debug flags ''domain'' [ADomain domain]
                  @ (if IsExpiringSoon domain \<and> \<not> printFlag flags
                     then sendEmail env config flags
                            (count_sends (tr3 @ slog_Debug flags ''domain'' [ADomain domain]))
                            (''certificate expiration warning: '' @ d) (Summary domain)
                     else []),
              snd st @ [domain]))"
  by (cases st) (simp add: main_round_def Let_def split: sum.splits prod.splits)

lemma dials_main_round:
  "dials (fst (main_round env config flags i d st)) = dials (fst st) @ [d @ '':443'']"
  by (simp add: main_round_unfold Let_def dials_append slog_Debug_quiet slog_Error_quiet
      getDomain_quiet sendEmail_events Nil_quiet split: sum.splits)

lemma printed_main_round:
  "printed (fst (main_round env config flags i d st)) = printed (fst st)"
  by (simp add: main_round_unfold Let_def printed_append slog_Debug_quiet slog_Error_quiet
      getDomain_quiet sendEmail_events Nil_quiet split: sum.splits)

lemma sent_main_round:
  "sent (fst (main_round env config flags i d st)) =
     sent (fst st) @
     (if expiring env config i d \<and> \<not> printFlag flags
      then [mail config (''certificate expiration warning: '' @ d) (rendered env config i d)]
      else [])"
  by (simp add: main_round_unfold Let_def sent_append slog_Debug_quiet slog_Error_quiet
      getDomain_quiet sendEmail_events Nil_quiet expiring_def rendered_def split: sum.splits)

lemma dial_errors_main_round:
  "errors_logged ''failed to dial domain'' (fst (main_round env config flags i d st)) =
     errors_logged ''failed to dial domain'' (fst st) @
     (case tlsDial env i (d @ '':443'') of Inl err \<Rightarrow> [[AErr err]] | Inr conn \<Rightarrow> [])"
proof (cases "tlsDial env i (d @ '':443'')")
  case (Inl err)
  then have "snd (getDomain env config i d) = Inl err" by (simp add: getDomain_Inl_iff)
  with Inl show ?thesis
    by (simp add: main_round_unfold Let_def errors_logged_append slog_Debug_quiet slog_Error_quiet
        getDomain_quiet)
next
  case (Inr conn)
  then have "\<And>err. snd (getDomain env config i d) \<noteq> Inl err" by (simp add: getDomain_Inl_iff)
  with Inr show ?thesis
    by (simp add: main_round_unfold Let_def errors_logged_append slog_Debug_quiet slog_Error_quiet
        getDomain_quiet sendEmail_events Nil_quiet split: sum.splits)
qed

lemma summaryLines_append: "summaryLines (a @ b) = summaryLines a @ summaryLines b"
  by (induction a) simp_all

lemma summaryLines_main_round:
  "summaryLines (snd (main_round env config flags i d st)) =
     summaryLines (snd st) @ (if dial_ok env i d then [rendered env config i d, []] else [])"
proof (cases "tlsDial env i (d @ '':443'')")
  case (Inl err)
  then have "snd (getDomain env config i d) = Inl err" by (simp add: getDomain_Inl_iff)
  with Inl show ?thesis
    by (simp add: main_round_unfold Let_def dial_ok_def)
next
  case (Inr conn)
  then have "\<And>err. snd (getDomain env config i d) \<noteq> Inl err" by (simp add: getDomain_Inl_iff)
  with Inr show ?thesis
    by (simp add: main_round_unfold Let_def dial_ok_def rendered_def summaryLines_append
        split: sum.splits)
qed

lemma expiring_dial_ok:
  assumes "expiring env config i d"
  shows "dial_ok env i d"
proof (cases "tlsDial env i (d @ '':443'')")
  case (Inl err)
  then have "snd (getDomain env config i d) = Inl err" by (simp add: getDomain_Inl_iff)
  with assms show ?thesis by (simp add: expiring_def)
next
  case (Inr conn)
  then show ?thesis by (simp add: dial_ok_def)
qed

subsection \<open>The events of a run\<close>

lemma dials_main_loop:
  "dials (fst (main_loop env config flags i ds st)) = dials (fst st) @ map (\<lambda>d. d @ '':443'') ds"
  by (induction ds arbitrary: i st) (simp_all add: dials_main_round)

lemma printed_main_loop:
  "printed (fst (main_loop env config flags i ds st)) = printed (fst st)"
  by (induction ds arbitrary: i st) (simp_all add: printed_main_round)

lemma dial_errors_main_loop:
  "errors_logged ''failed to dial domain'' (fst (main_loop env config flags i ds st)) =
     errors_logged ''failed to dial domain'' (fst st) @ dial_errors env i ds"
  by (induction ds arbitrary: i st) (simp_all add: dial_errors_main_round dial_errors_def)

lemma summaryLines_main_loop:
  "summaryLines (snd (main_loop env config flags i ds st)) =
     summaryLines (snd st) @ summary_entries env config i ds"
  by (induction ds arbitrary: i st)
     (simp_all add: summaryLines_main_round summary_entries_def ok_rounds_def)

lemma sent_main_loop:
  "sent (fst (main_loop env config flags i ds st)) =
     sent (fst st) @ (if printFlag flags then [] else alert_messages env config i ds)"
proof (induction ds arbitrary: i st)
  case Nil
  show ?case by (simp add: alert_messages_def ok_rounds_def)
next
  case (Cons d ds)
  show ?case
    using expiring_dial_ok [of env config i d]
    by (auto simp: Cons.IH sent_main_round alert_messages_def ok_rounds_def)
qed

lemma main_summary_unfold:
  "main_summary env config flags st =
     fst st @
     (if summaryFlag flags
      then (if printFlag flags
            then [Stdout (Join (summaryLines (snd st)) nl @ nl)]
            else sendEmail env config flags (count_sends (fst st)) ''certificate summary''
                   (Join (summaryLines (snd st)) nl))
      else [])"
  by (cases st) (simp add: main_summary_def Let_def)

lemma Stdout_quiet:
  "dials [Stdout s] = []" "sent [Stdout s] = []" "printed [Stdout s] = [s]"
  "errors_logged m [Stdout s] = []"
  by (simp_all add: dials_def sent_def printed_def errors_logged_def)

lemma dials_main_body:
  "dials (main_body env config flags) = map (\<lambda>d. d @ '':443'') (Domains config)"
  by (simp add: main_body_def main_summary_unfold dials_append dials_main_loop sendEmail_events
      Nil_quiet Stdout_quiet)

lemma dial_errors_main_body:
  "errors_logged ''failed to dial domain'' (main_body env config flags) = dial_errors env 0 (Domains config)"
  by (simp add: main_body_def main_summary_unfold errors_logged_append dial_errors_main_loop
      sendEmail_events Nil_quiet Stdout_quiet)

lemma printed_main_body:
  "printed (main_body env config flags) =
     (if summaryFlag flags \<and> printFlag flags
      then [Join (summary_entries env config 0 (Domains config)) nl @ nl]
      else [])"
  by (simp add: main_body_def main_summary_unfold printed_append printed_main_loop sendEmail_events
      summaryLines_main_loop Nil_quiet Stdout_quiet)

lemma sent_main_body:
  "sent (main_body env config flags) =
     (if printFlag flags then []
      else alert_messages env config 0 (Domains config) @
           (if summaryFlag flags
            then [mail config ''certificate summary'' (Join (summary_entries env config 0 (Domains config)) nl)]
            else []))"
  by (simp add: main_body_def main_summary_unfold sent_append sent_main_loop sendEmail_events
      summaryLines_main_loop Nil_quiet Stdout_quiet)

subsection \<open>Claims about a run\<close>

lemma alert_subject_not_summary:
  "filter (\<lambda>m. msg_Subject m = ''certificate summary'') (alert_messages env config i ds) = []"
  by (simp add: alert_messages_def mail_def filter_empty_conv split_def)

text \<open>
  Claim C4. Whatever the dials return, every configured domain is dialled, once and in
  the configured order: a dial that fails does not end the loop. Each failure is written
  to the log as a record ``failed to dial domain'' with the error, in the same order.
\<close>

theorem main_dials_every_domain:
  "dials (main_body env config flags) = map (\<lambda>d. d @ '':443'') (Domains config)
   \<and> errors_logged ''failed to dial domain'' (main_body env config flags)
       = dial_errors env 0 (Domains config)"
  by (simp add: dials_main_body dial_errors_main_body)

text \<open>
  In the sample run the first domain fails to dial; the second is dialled all the same.
\<close>

theorem main_dials_every_domain_witness:
  "dials (main_body sample_env sample_config (sample_flags False False))
     = [''bad.example.com:443'', ''example.com:443'']
   \<and> errors_logged ''failed to dial domain'' (main_body sample_env sample_config (sample_flags False False))
       = [[AErr (EnvError ''dial failed'')]]"
proof -
  have e: "dial_errors sample_env 0 (Domains sample_config) = [[AErr (EnvError ''dial failed'')]]"
    by (simp add: dial_errors_def sample_env_def sample_config_def)
  show ?thesis
    using main_dials_every_domain [of sample_env sample_config "sample_flags False False"]
    by (simp add: e) (simp add: sample_config_def)
qed

text \<open>
  Claim C5. With \<^verbatim>\<open>--print\<close> a run never calls \<^verbatim>\<open>DialAndSend\<close>, whichever domains are
  expiring soon and whether or not the summary is requested. What a run is asked to put
  out in this mode is the summary: with \<^verbatim>\<open>--summary\<close> it is written to standard output,
  once, followed by a newline, and nothing else is written there; without \<^verbatim>\<open>--summary\<close>
  nothing is written. (The warnings for single domains are not written to standard
  output: they are left out.)
\<close>

theorem print_only_never_sends:
  assumes "printFlag flags"
  shows "sent (main_body env config flags) = []
         \<and> count_sends (main_body env config flags) = 0
         \<and> printed (main_body env config flags)
             = (if summaryFlag flags
                then [Join (summary_entries env config 0 (Domains config)) nl @ nl]
                else [])"
  using assms by (simp add: sent_main_body printed_main_body count_sends_sent)

lemma sample_summary:
  "Join (summary_entries sample_env sample_config 0 (Domains sample_config)) nl @ nl =
   ''example.com'' @ nl @ ''  Expiring Soon: true'' @ nl @ ''  Expires:       2024-01-10'' @ nl
   @ ''  DNS Alt Names:'' @ nl @ ''    example.com'' @ nl @ ''    www.example.com'' @ nl
   @ ''    alt.example.com'' @ nl @ nl"
  by code_simp


text \<open>The sample run: the summary and the warning.\<close>

lemma sample_body:
  "Join (summary_entries sample_env sample_config 0 (Domains sample_config)) nl =
   ''example.com'' @ nl @ ''  Expiring Soon: true'' @ nl @ ''  Expires:       2024-01-10'' @ nl
   @ ''  DNS Alt Names:'' @ nl @ ''    example.com'' @ nl @ ''    www.example.com'' @ nl
   @ ''    alt.example.com'' @ nl"
  by code_simp

lemma sample_alerts:
  "alert_messages sample_env sample_config 0 (Domains sample_config) =
   [mail sample_config ''certificate expiration warning: example.com''
      (''example.com'' @ nl @ ''  Expiring Soon: true'' @ nl @ ''  Expires:       2024-01-10'' @ nl
       @ ''  DNS Alt Names:'' @ nl @ ''    example.com'' @ nl @ ''    www.example.com'' @ nl
       @ ''    alt.example.com'')]"
  by code_simp

text \<open>The sample run with \<^verbatim>\<open>--summary --print\<close>, where one domain is expiring soon.\<close>

theorem print_only_never_sends_witness:
  "printFlag (sample_flags True True)
   \<and> sent (main_body sample_env sample_config (sample_flags True True)) = []
   \<and> printed (main_body sample_env sample_config (sample_flags True True))
       = [''example.com'' @ nl @ ''  Expiring Soon: true'' @ nl @ ''  Expires:       2024-01-10'' @ nl
          @ ''  DNS Alt Names:'' @ nl @ ''    example.com'' @ nl @ ''    www.example.com'' @ nl
          @ ''    alt.example.com'' @ nl @ nl]"
proof -
  have p: "printFlag (sample_flags True True)" "summaryFlag (sample_flags True True)"
    by (simp_all add: sample_flags_def)
  show ?thesis
    using p print_only_never_sends [OF p(1), of sample_env sample_config]
    by (simp add: sample_summary)
qed

text \<open>
  Claim C3. With \<^verbatim>\<open>--summary\<close>, the body of the summary is the lines of
  \<open>summary_entries\<close> joined by newlines: for every round of the loop whose dial gave a
  connection, in the configured order, the summary rendered for that domain and an empty
  line, and nothing for a round whose dial failed. With \<^verbatim>\<open>--print\<close> the body is written
  to standard output, once; without it, exactly one message with the subject
  ``certificate summary'' is handed to the mail transport, with that body, however many
  warnings the run sends.
\<close>

theorem summary_once_in_order:
  assumes "summaryFlag flags"
  shows "printed (main_body env config flags)
           = (if printFlag flags
              then [Join (summary_entries env config 0 (Domains config)) nl @ nl]
              else [])
         \<and> filter (\<lambda>m. msg_Subject m = ''certificate summary'') (sent (main_body env config flags))
           = (if printFlag flags
              then []
              else [mail config ''certificate summary''
                      (Join (summary_entries env config 0 (Domains config)) nl)])"
  using assms
  by (simp add: printed_main_body sent_main_body alert_subject_not_summary mail_def)

text \<open>
  The sample run with \<^verbatim>\<open>--summary\<close>: two messages are sent, a warning and the summary,
  and the summary leaves out the domain that failed to dial.
\<close>

theorem summary_once_in_order_witness:
  "summaryFlag (sample_flags True False)
   \<and> filter (\<lambda>m. msg_Subject m = ''certificate summary'')
       (sent (main_body sample_env sample_config (sample_flags True False)))
     = [mail sample_config ''certificate summary''
          (''example.com'' @ nl @ ''  Expiring Soon: true'' @ nl @ ''  Expires:       2024-01-10'' @ nl
           @ ''  DNS Alt Names:'' @ nl @ ''    example.com'' @ nl @ ''    www.example.com'' @ nl
           @ ''    alt.example.com'' @ nl)]
   \<and> length (sent (main_body sample_env sample_config (sample_flags True False))) = 2"
proof -
  have p: "summaryFlag (sample_flags True False)" "\<not> printFlag (sample_flags True False)"
    by (simp_all add: sample_flags_def)
  show ?thesis
    using p summary_once_in_order [OF p(1), of sample_env sample_config]
    by (simp add: sample_body sent_main_body sample_alerts mail_def)
qed

text \<open>
  Claim C9. With \<^verbatim>\<open>--summary\<close>, when no dial gives a connection (and so also when no
  domain is configured), the summary is still put out once, with an empty body: an empty
  line on standard output with \<^verbatim>\<open>--print\<close>, one message with the subject
  ``certificate summary'' and an empty body otherwise.
\<close>

theorem summary_without_domains:
  assumes "summaryFlag flags" and "ok_rounds env 0 (Domains config) = []"
  shows "printed (main_body env config flags) = (if printFlag flags then [nl] else [])
         \<and> sent (main_body env config flags)
             = (if printFlag flags then [] else [mail config ''certificate summary'' []])"
  using assms
  by (simp add: printed_main_body sent_main_body summary_entries_def alert_messages_def)

text \<open>No domain configured, and one domain whose dial fails.\<close>

theorem summary_without_domains_witness:
  "ok_rounds sample_env 0 (Domains (sample_config\<lparr>Domains := []\<rparr>)) = []
   \<and> ok_rounds sample_env 0 (Domains (sample_config\<lparr>Domains := [''bad.example.com'']\<rparr>)) = []
   \<and> printed (main_body sample_env (sample_config\<lparr>Domains := []\<rparr>) (sample_flags True True)) = [nl]
   \<and> sent (main_body sample_env (sample_config\<lparr>Domains := []\<rparr>) (sample_flags True True)) = []
   \<and> printed (main_body sample_env (sample_config\<lparr>Domains := [''bad.example.com'']\<rparr>) (sample_flags True False)) = []
   \<and> sent (main_body sample_env (sample_config\<lparr>Domains := [''bad.example.com'']\<rparr>) (sample_flags True False))
       = [mail (sample_config\<lparr>Domains := [''bad.example.com'']\<rparr>) ''certificate summary'' []]"
proof -
  have p: "summaryFlag (sample_flags True True)" "printFlag (sample_flags True True)"
    "summaryFlag (sample_flags True False)" "\<not> printFlag (sample_flags True False)"
    by (simp_all add: sample_flags_def)
  have a: "ok_rounds sample_env 0 (Domains (sample_config\<lparr>Domains := []\<rparr>)) = []"
    by (simp add: ok_rounds_def)
  have b: "ok_rounds sample_env 0 (Domains (sample_config\<lparr>Domains := [''bad.example.com'']\<rparr>)) = []"
    by (simp add: ok_rounds_def dial_ok_def sample_env_def)
  show ?thesis
    using p a b summary_without_domains [OF p(1) a] summary_without_domains [OF p(3) b]
    by simp
qed

text \<open>
  Claim C10. Without \<^verbatim>\<open>--print\<close> and with \<^verbatim>\<open>--summary\<close>, the messages of a run are the
  warnings, one for every round whose dial gave a connection and whose domain is
  expiring soon, and then the summary. The body of the warning of round \<open>j\<close> is
  \<open>rendered env config j d\<close>, the summary field of the domain that \<^verbatim>\<open>getDomain\<close>
  returned in that round, and the entry of that round in the body of the summary is the
  same string.
\<close>

theorem alert_body_is_summary_entry:
  assumes "\<not> printFlag flags" and "summaryFlag flags"
  shows "sent (main_body env config flags)
         = map (\<lambda>(j, d). mail config (''certificate expiration warning: '' @ d) (rendered env config j d))
             (filter (\<lambda>(j, d). expiring env config j d) (ok_rounds env 0 (Domains config)))
           @ [mail config ''certificate summary''
                (Join (concat (map (\<lambda>(j, d). [rendered env config j d, []])
                                 (ok_rounds env 0 (Domains config)))) nl)]"
  using assms by (simp add: sent_main_body alert_messages_def summary_entries_def)

text \<open>The sample run: the body of the warning is the first line of the summary.\<close>

theorem alert_body_is_summary_entry_witness:
  "\<not> printFlag (sample_flags True False) \<and> summaryFlag (sample_flags True False)
   \<and> map msg_Body (sent (main_body sample_env sample_config (sample_flags True False)))
     = [rendered sample_env sample_config (Suc 0) ''example.com'',
        Join [rendered sample_env sample_config (Suc 0) ''example.com'', []] nl]"
proof -
  have p: "\<not> printFlag (sample_flags True False)" "summaryFlag (sample_flags True False)"
    by (simp_all add: sample_flags_def)
  have o: "ok_rounds sample_env 0 (Domains sample_config) = [(Suc 0, ''example.com'')]"
    by (simp add: ok_rounds_def dial_ok_def sample_env_def sample_config_def)
  have e: "expiring sample_env sample_config (Suc 0) ''example.com''"
    by code_simp
  show ?thesis
    using p alert_body_is_summary_entry [OF p, of sample_env sample_config]
    by (simp add: o e mail_def)
qed

subsection \<open>The prober and the report\<close>








text \<open>
  Claim C6, as the code has it. \<^verbatim>\<open>getDomain\<close> dials once, the address made of the
  endpoint and the text \<^verbatim>\<open>:443\<close>, whatever the endpoint is: a host is dialled on port
  443, and so is an endpoint that already names a port, with the port 443 after its own.
\<close>

theorem getDomain_dials_443:
  "dials (fst (getDomain env config i endpoint)) = [endpoint @ '':443'']"
  by (simp add: getDomain_quiet)

text \<open>
  Claim C6 as it is stated fails for an endpoint with a port: the address dialled for
  \<^verbatim>\<open>example.com:8443\<close> is \<^verbatim>\<open>example.com:8443:443\<close>, not the endpoint itself.
\<close>

theorem getDomain_port_counterexample:
  "dials (fst (getDomain sample_env sample_config 0 ''example.com:8443''))
     = [''example.com:8443:443'']
   \<and> dials (fst (getDomain sample_env sample_config 0 ''example.com:8443''))
     \<noteq> [spec_address ''example.com:8443'']"
  by (simp add: getDomain_quiet spec_address_def)

subsection \<open>Failed deliveries\<close>

lemma quiet_append: "quiet (a @ b) = quiet a @ quiet b"
  by (simp add: quiet_def)

lemma quiet_slog_Debug: "quiet (slog_Debug flags msg args) = slog_Debug flags msg args"
  by (simp add: quiet_def slog_Debug_def is_send_failure_def)

lemma quiet_sendEmail:
  "quiet (sendEmail env config flags k subject contents) =
     slog_Debug flags ''sending email'' [AStr subject, AStr contents]
     @ [Send (Server (SMTP config)) (Port (SMTP config)) (mail config subject contents)]"
  by (simp add: sendEmail_def Let_def quiet_append quiet_slog_Debug mail_def)
     (simp add: quiet_def is_send_failure_def slog_Error_def split: option.splits)

lemma getDomain_DialAndSend:
  "getDomain (env\<lparr>DialAndSend := f\<rparr>) config i d = getDomain env config i d"
  by (simp add: getDomain_def Let_def split: sum.splits)

lemma count_sends_quiet: "count_sends (quiet tr) = count_sends tr"
proof (induction tr)
  case Nil
  show ?case by (simp add: quiet_def)
next
  case (Cons e tr)
  then show ?case
    by (cases e) (simp_all add: quiet_def count_sends_def is_send_failure_def)
qed

lemma quiet_main_round:
  assumes "quiet (fst st) = quiet (fst st')" and "snd st = snd st'"
  shows "quiet (fst (main_round (env\<lparr>DialAndSend := f\<rparr>) config flags i d st))
           = quiet (fst (main_round env config flags i d st'))
         \<and> snd (main_round (env\<lparr>DialAndSend := f\<rparr>) config flags i d st)
           = snd (main_round env config flags i d st')"
  using assms
  by (simp add: main_round_unfold Let_def getDomain_DialAndSend quiet_append quiet_sendEmail
      split: sum.splits)

lemma quiet_main_loop:
  assumes "quiet (fst st) = quiet (fst st')" and "snd st = snd st'"
  shows "quiet (fst (main_loop (env\<lparr>DialAndSend := f\<rparr>) config flags i ds st))
           = quiet (fst (main_loop env config flags i ds st'))
         \<and> snd (main_loop (env\<lparr>DialAndSend := f\<rparr>) config flags i ds st)
           = snd (main_loop env config flags i ds st')"
  using assms
proof (induction ds arbitrary: i st st')
  case Nil
  then show ?case by simp
next
  case (Cons d ds)
  from quiet_main_round [OF Cons.prems, where env = env and f = f and config = config
      and flags = flags and i = i and d = d]
  show ?case by (simp add: Cons.IH)
qed

lemma quiet_main_body:
  "quiet (main_body (env\<lparr>DialAndSend := f\<rparr>) config flags) = quiet (main_body env config flags)"
proof -
  have "quiet (fst ([], [])) = quiet (fst ([]::event list, []::Domain list))"
    "snd ([]::event list, []::Domain list) = snd ([]::event list, []::Domain list)"
    by simp_all
  from quiet_main_loop [OF this, where env = env and f = f and config = config
      and flags = flags and i = 0 and ds = "Domains config"]
  show ?thesis
    by (simp add: main_body_def main_summary_unfold quiet_append quiet_sendEmail)
qed

lemma delivery_errors_snoc:
  "delivery_errors env config (ms @ [m]) =
     delivery_errors env config ms
     @ (case DialAndSend env (length ms) (Server (SMTP config)) (Port (SMTP config)) m of
          Some err \<Rightarrow> [[AErr err]] | None \<Rightarrow> [])"
proof -
  let ?F = "\<lambda>xs k. case DialAndSend env k (Server (SMTP config)) (Port (SMTP config)) (xs ! k) of
                     Some err \<Rightarrow> [[AErr err]] | None \<Rightarrow> []"
  have eq: "map (?F (ms @ [m])) [0..<length ms] = map (?F ms) [0..<length ms]"
    by (rule map_cong) (simp_all add: nth_append)
  show ?thesis
    by (simp add: delivery_errors_def eq)
qed

lemma logged_sendEmail:
  assumes "errors_logged ''failed to send email'' tr = delivery_errors env config (sent tr)"
  shows "errors_logged ''failed to send email'' (tr @ sendEmail env config flags (count_sends tr) s b)
         = delivery_errors env config (sent (tr @ sendEmail env config flags (count_sends tr) s b))"
  using assms
  by (simp add: errors_logged_append sent_append sendEmail_events delivery_errors_snoc count_sends_sent)

lemma logged_silent:
  assumes "errors_logged ''failed to send email'' tr = delivery_errors env config (sent tr)"
    and "sent x = []" and "errors_logged ''failed to send email'' x = []"
  shows "errors_logged ''failed to send email'' (tr @ x) = delivery_errors env config (sent (tr @ x))"
  using assms by (simp add: errors_logged_append sent_append)


lemma logged_main_round:
  assumes "errors_logged ''failed to send email'' (fst st) = delivery_errors env config (sent (fst st))"
  shows "errors_logged ''failed to send email'' (fst (main_round env config flags i d st))
         = delivery_errors env config (sent (fst (main_round env config flags i d st)))"
proof -
  let ?tr = "fst st @ slog_Debug flags ''checking domain: %s'' [AStr d] @ fst (getDomain env config i d)"
  have tr: "errors_logged ''failed to send email'' ?tr = delivery_errors env config (sent ?tr)"
    by (rule logged_silent [OF assms])
       (simp_all add: sent_append errors_logged_append slog_Debug_quiet getDomain_quiet)
  show ?thesis
  proof (cases "snd (getDomain env config i d)")
    case (Inl err)
    have "errors_logged ''failed to send email'' (?tr @ slog_Error ''failed to dial domain'' [AErr err])
          = delivery_errors env config (sent (?tr @ slog_Error ''failed to dial domain'' [AErr err]))"
      by (rule logged_silent [OF tr]) (simp_all add: slog_Error_quiet)
    with Inl show ?thesis
      by (simp add: main_round_unfold Let_def)
  next
    case (Inr domain)
    let ?tr3 = "?tr @ slog_Debug flags ''domain'' [ADomain domain]"
    have tr3: "errors_logged ''failed to send email'' ?tr3 = delivery_errors env config (sent ?tr3)"
      by (rule logged_silent [OF tr]) (simp_all add: slog_Debug_quiet)
    show ?thesis
    proof (cases "IsExpiringSoon domain \<and> \<not> printFlag flags")
      case True
      with Inr logged_sendEmail [OF tr3] show ?thesis
        by (simp add: main_round_unfold Let_def)
    next
      case False
      with Inr tr3 show ?thesis
        by (auto simp: main_round_unfold Let_def)
    qed
  qed
qed

lemma logged_main_loop:
  assumes "errors_logged ''failed to send email'' (fst st) = delivery_errors env config (sent (fst st))"
  shows "errors_logged ''failed to send email'' (fst (main_loop env config flags i ds st))
         = delivery_errors env config (sent (fst (main_loop env config flags i ds st)))"
  using assms
proof (induction ds arbitrary: i st)
  case Nil
  then show ?case by simp
next
  case (Cons d ds)
  show ?case
    by (simp add: Cons.IH [OF logged_main_round [OF Cons.prems]])
qed

lemma logged_main_body:
  "errors_logged ''failed to send email'' (main_body env config flags)
     = delivery_errors env config (sent (main_body env config flags))"
proof -
  let ?st = "main_loop env config flags 0 (Domains config) ([], [])"
  have "errors_logged ''failed to send email'' (fst ([], [])) = delivery_errors env config (sent (fst ([], [])))"
    by (simp add: Nil_quiet delivery_errors_def)
  then have l: "errors_logged ''failed to send email'' (fst ?st) = delivery_errors env config (sent (fst ?st))"
    by (rule logged_main_loop)
  show ?thesis
  proof (cases "summaryFlag flags")
    case False
    with l show ?thesis by (simp add: main_body_def main_summary_unfold)
  next
    case True
    show ?thesis
    proof (cases "printFlag flags")
      case True
      have "errors_logged ''failed to send email'' (fst ?st @ [Stdout (Join (summaryLines (snd ?st)) nl @ nl)])
            = delivery_errors env config (sent (fst ?st @ [Stdout (Join (summaryLines (snd ?st)) nl @ nl)]))"
        by (rule logged_silent [OF l]) (simp_all add: Stdout_quiet)
      with True \<open>summaryFlag flags\<close> show ?thesis
        by (simp add: main_body_def main_summary_unfold)
    next
      case False
      with \<open>summaryFlag flags\<close> logged_sendEmail [OF l] show ?thesis
        by (simp add: main_body_def main_summary_unfold)
    qed
  qed
qed

lemma main_config_loaded:
  assumes "ReadFile env (getConfigPath env (configFlag flags)) = Inr text"
    and "yaml_Unmarshal env text = Inr config"
  shows "main env flags = (main_body env config flags, 0)"
  using assms by (simp add: main_def Let_def)


text \<open>
  Claim C8. Once the configuration is loaded, the run ends with the exit status 0,
  whatever the mail transport answers. For every call of \<^verbatim>\<open>DialAndSend\<close> that fails the
  run writes a record ``failed to send email'' with the error to the log, and only for
  those, in the order of the calls. Every configured domain is dialled all the same; and
  under any other behaviour \<open>f\<close> of the mail transport the run is the same, event by
  event, but for these log records: a delivery that fails changes nothing else.
\<close>

theorem delivery_failure_is_logged_only:
  assumes "ReadFile env (getConfigPath env (configFlag flags)) = Inr text"
    and "yaml_Unmarshal env text = Inr config"
  shows "main env flags = (main_body env config flags, 0)
         \<and> errors_logged ''failed to send email'' (main_body env config flags)
             = delivery_errors env config (sent (main_body env config flags))
         \<and> dials (main_body env config flags) = map (\<lambda>d. d @ '':443'') (Domains config)
         \<and> (\<forall>f. quiet (main_body (env\<lparr>DialAndSend := f\<rparr>) config flags)
                  = quiet (main_body env config flags))"
  using main_config_loaded [OF assms]
  by (simp add: logged_main_body dials_main_body quiet_main_body)

text \<open>
  The sample run with \<^verbatim>\<open>--summary\<close>: the delivery of the warning fails and is logged,
  the summary is sent after it, and the exit status is 0.
\<close>

theorem delivery_failure_is_logged_only_witness:
  "ReadFile sample_env (getConfigPath sample_env (configFlag (sample_flags True False))) = Inr ''domains''
   \<and> yaml_Unmarshal sample_env ''domains'' = Inr sample_config
   \<and> snd (main sample_env (sample_flags True False)) = 0
   \<and> errors_logged ''failed to send email'' (fst (main sample_env (sample_flags True False)))
       = [[AErr (EnvError ''smtp down'')]]
   \<and> map msg_Subject (sent (fst (main sample_env (sample_flags True False))))
       = [''certificate expiration warning: example.com'', ''certificate summary'']"
proof -
  have r: "ReadFile sample_env (getConfigPath sample_env (configFlag (sample_flags True False))) = Inr ''domains''"
    by (simp add: sample_env_def sample_flags_def getConfigPath_def)
  have y: "yaml_Unmarshal sample_env ''domains'' = Inr sample_config"
    by (simp add: sample_env_def)
  have f: "\<not> printFlag (sample_flags True False)" "summaryFlag (sample_flags True False)"
    by (simp_all add: sample_flags_def)
  have s: "sent (main_body sample_env sample_config (sample_flags True False))
           = alert_messages sample_env sample_config 0 (Domains sample_config)
             @ [mail sample_config ''certificate summary''
                  (Join (summary_entries sample_env sample_config 0 (Domains sample_config)) nl)]"
    using f by (simp add: sent_main_body)
  have d: "delivery_errors sample_env sample_config [a, b] = [[AErr (EnvError ''smtp down'')]]" for a b
    by (simp add: delivery_errors_def sample_env_def)
  note t = delivery_failure_is_logged_only [OF r y]
  have m: "main sample_env (sample_flags True False)
           = (main_body sample_env sample_config (sample_flags True False), 0)"
    using t by (rule conjunct1)
  have e: "errors_logged ''failed to send email'' (main_body sample_env sample_config (sample_flags True False))
           = [[AErr (EnvError ''smtp down'')]]"
    using t [THEN conjunct2, THEN conjunct1] by (simp add: s sample_alerts d)
  have j: "map msg_Subject (sent (main_body sample_env sample_config (sample_flags True False)))
           = [''certificate expiration warning: example.com'', ''certificate summary'']"
    by (simp add: s sample_alerts mail_def)
  show ?thesis
    using r y e j by (simp add: m)
qed

end
